theory Spec2Isabelle
  imports Complex_Main
begin

section \<open>Data model (src/types/index.ts)\<close>

text \<open>
  The fields of a record carry the name of the record in front (\<open>color_hex\<close> for
  \<open>Color.hex\<close>, \<open>hsl_h\<close> for \<open>hsl.h\<close>), as the program uses the bare names for its
  variables too.

  A JavaScript \<open>number\<close> is modelled as a rational: every finite double is one, and
  \<open>Math.max\<close>, \<open>Math.min\<close>, \<open>Math.abs\<close>, \<open>Math.floor\<close>, \<open>Math.round\<close>, comparison and
  \<open>%\<close> are exact on doubles. Sums, products and quotients are taken exactly, where the
  program rounds them to the nearest double. Strings are lists of ASCII characters.

  \<open>NaN\<close> and the two infinities are values of a \<open>number\<close> too. The type \<open>double\<close>
  adds them to the rationals; it is the type of the argument of \<open>findClosestTone\<close>,
  where the guard on the argument is the subject.
\<close>

type_synonym number = rat

datatype double = Finite number | PosInfinity | NegInfinity | NaN

record rgb =
  rgb_r :: number
  rgb_g :: number
  rgb_b :: number

record hsl =
  hsl_h :: number
  hsl_s :: number
  hsl_l :: number

record Color =
  color_id :: string
  color_hex :: string
  color_rgb :: rgb
  color_hsl :: hsl
  isLocked :: bool

record ColorTone =
  tone_label :: string
  tone_lightness :: number
  tone_hex :: string

record Palette =
  colors :: "Color list"
  palette_name :: "string option"
  createdAt :: nat

text \<open>
  Of \<open>Partial<PaletteGenerationOptions>\<close> the generator reads \<open>preserveLocked\<close> only;
  the field may be absent, and so may the whole options object.
\<close>

record PaletteGenerationOptions =
  preserveLocked :: "bool option"

text \<open>
  Every failure of the program is \<open>throw new Error(message)\<close>; the three kinds are
  told apart by the message: "Invalid HEX color format" (\<open>InvalidFormat\<close>),
  "Invalid HSL values", "Invalid RGB values" and "Invalid HEX color"
  (\<open>InvalidColorValue\<close>), "Invalid lightness value" (\<open>InvalidLightness\<close>).
\<close>

datatype error = InvalidFormat | InvalidColorValue | InvalidLightness

section \<open>JavaScript built-ins used by the program\<close>

text \<open>
  \<open>a < b\<close>, \<open>a - b\<close> and \<open>Math.abs(a)\<close> on doubles: a comparison with \<open>NaN\<close> is
  false, and \<open>NaN\<close> and the difference of equal infinities give \<open>NaN\<close>.
\<close>

fun double_less :: "double \<Rightarrow> double \<Rightarrow> bool" where
  "double_less NaN b = False"
| "double_less a NaN = False"
| "double_less (Finite x) (Finite y) = (x < y)"
| "double_less NegInfinity NegInfinity = False"
| "double_less NegInfinity b = True"
| "double_less a NegInfinity = False"
| "double_less PosInfinity b = False"
| "double_less a PosInfinity = True"

fun double_minus :: "double \<Rightarrow> double \<Rightarrow> double" where
  "double_minus NaN b = NaN"
| "double_minus a NaN = NaN"
| "double_minus (Finite x) (Finite y) = Finite (x - y)"
| "double_minus PosInfinity PosInfinity = NaN"
| "double_minus NegInfinity NegInfinity = NaN"
| "double_minus PosInfinity b = PosInfinity"
| "double_minus NegInfinity b = NegInfinity"
| "double_minus a PosInfinity = NegInfinity"
| "double_minus a NegInfinity = PosInfinity"

fun Math_abs :: "double \<Rightarrow> double" where
  "Math_abs (Finite x) = Finite \<bar>x\<bar>"
| "Math_abs PosInfinity = PosInfinity"
| "Math_abs NegInfinity = PosInfinity"
| "Math_abs NaN = NaN"

definition Math_round :: "number \<Rightarrow> number" where
  "Math_round x = of_int \<lfloor>x + 1 / 2\<rfloor>"

definition Math_floor :: "number \<Rightarrow> number" where
  "Math_floor x = of_int \<lfloor>x\<rfloor>"

text \<open>The remainder \<open>x % y\<close> of JavaScript: the quotient is truncated towards zero.\<close>

definition js_rem :: "number \<Rightarrow> number \<Rightarrow> number" where
  "js_rem x y = (let q = x / y in x - y * of_int (if 0 \<le> q then \<lfloor>q\<rfloor> else \<lceil>q\<rceil>))"

text \<open>\<open>str.toUpperCase()\<close> on ASCII: the letters a to z change, nothing else does.\<close>

definition toUpperCase_char :: "char \<Rightarrow> char" where
  "toUpperCase_char c =
     (case map_of (zip ''abcdefghijklmnopqrstuvwxyz'' ''ABCDEFGHIJKLMNOPQRSTUVWXYZ'') c of
        Some u \<Rightarrow> u
      | None \<Rightarrow> c)"

definition toUpperCase :: "string \<Rightarrow> string" where
  "toUpperCase str = map toUpperCase_char str"

text \<open>\<open>str.replace(c, '')\<close> with a one-character pattern: the first occurrence goes.\<close>

fun replace_first :: "char \<Rightarrow> string \<Rightarrow> string" where
  "replace_first c [] = []"
| "replace_first c (x # xs) = (if x = c then xs else x # replace_first c xs)"

text \<open>\<open>str.substring(a, b)\<close>: the arguments are swapped when \<open>a > b\<close>.\<close>

definition substring :: "string \<Rightarrow> nat \<Rightarrow> nat \<Rightarrow> string" where
  "substring str a b = take (max a b - min a b) (drop (min a b) str)"

text \<open>\<open>n.toString(16)\<close> for a non-negative integer: lower-case digits, no padding.\<close>

definition hexDigit :: "nat \<Rightarrow> char" where
  "hexDigit d = ''0123456789abcdef'' ! d"

fun toString16 :: "nat \<Rightarrow> string" where
  "toString16 n = (if n < 16 then [hexDigit n] else toString16 (n div 16) @ [hexDigit (n mod 16)])"

declare toString16.simps [simp del]

text \<open>
  \<open>parseInt(str, 16)\<close>: leading white space is skipped, then an optional sign, then
  an optional \<open>0x\<close> or \<open>0X\<close>; the longest prefix of hexadecimal digits is read and
  whatever follows it is ignored. With no digit the result is \<open>NaN\<close>, here \<open>None\<close>.
\<close>

definition isWhiteSpace :: "char \<Rightarrow> bool" where
  "isWhiteSpace c = (c \<in> set [CHR 0x09, CHR 0x0A, CHR 0x0B, CHR 0x0C, CHR 0x0D, CHR 0x20])"

definition digitValue :: "char \<Rightarrow> nat option" where
  "digitValue c =
     map_of (zip ''0123456789abcdefABCDEF''
                 [0, 1, 2, 3, 4, 5, 6, 7, 8, 9, 10, 11, 12, 13, 14, 15, 10, 11, 12, 13, 14, 15]) c"

definition isHexDigit :: "char \<Rightarrow> bool" where
  "isHexDigit c = (digitValue c \<noteq> None)"

fun digitsValue :: "nat \<Rightarrow> string \<Rightarrow> nat" where
  "digitsValue acc [] = acc"
| "digitsValue acc (c # cs) =
     digitsValue (16 * acc + (case digitValue c of Some v \<Rightarrow> v | None \<Rightarrow> 0)) cs"

definition parseInt16 :: "string \<Rightarrow> int option" where
  "parseInt16 str =
     (let s1 = dropWhile isWhiteSpace str;
          negative = (take 1 s1 = ''-'');
          s2 = (if take 1 s1 = ''+'' \<or> take 1 s1 = ''-'' then drop 1 s1 else s1);
          s3 = (if take 2 s2 = ''0x'' \<or> take 2 s2 = ''0X'' then drop 2 s2 else s2);
          ds = takeWhile isHexDigit s3;
          v = int (digitsValue 0 ds)
      in if ds = [] then None else Some (if negative then - v else v))"

text \<open>
  The ambient effects: \<open>Math.random()\<close> reads the next draw of a random source,
  \<open>crypto.randomUUID()\<close> the next identifier of an identifier source, and
  \<open>new Date()\<close> reads the clock. The sources are infinite sequences with a read
  position, passed in and returned.
\<close>

record world =
  random_src :: "nat \<Rightarrow> number"
  random_pos :: nat
  uuid_src :: "nat \<Rightarrow> string"
  uuid_pos :: nat
  clock :: nat

definition Math_random :: "world \<Rightarrow> number \<times> world" where
  "Math_random w = (random_src w (random_pos w), w\<lparr>random_pos := Suc (random_pos w)\<rparr>)"

definition randomUUID :: "world \<Rightarrow> string \<times> world" where
  "randomUUID w = (uuid_src w (uuid_pos w), w\<lparr>uuid_pos := Suc (uuid_pos w)\<rparr>)"

text \<open>\<open>Math.random()\<close> returns a number that is at least 0 and less than 1.\<close>

definition validRandom :: "world \<Rightarrow> bool" where
  "validRandom w = (\<forall>i. 0 \<le> random_src w i \<and> random_src w i < 1)"

section \<open>ColorConverter (src/lib/color-utils.ts)\<close>

definition hslToRgb :: "number \<Rightarrow> number \<Rightarrow> number \<Rightarrow> rgb" where
  "hslToRgb h0 s0 l0 =
     (let h = js_rem (js_rem h0 360 + 360) 360;
          s = max 0 (min 100 s0) / 100;
          l = max 0 (min 100 l0) / 100;
          c = (1 - \<bar>2 * l - 1\<bar>) * s;
          x = c * (1 - \<bar>js_rem (h / 60) 2 - 1\<bar>);
          m = l - c / 2;
          (r, g, b) =
            (if 0 \<le> h \<and> h < 60 then (c, x, 0)
             else if 60 \<le> h \<and> h < 120 then (x, c, 0)
             else if 120 \<le> h \<and> h < 180 then (0, c, x)
             else if 180 \<le> h \<and> h < 240 then (0, x, c)
             else if 240 \<le> h \<and> h < 300 then (x, 0, c)
             else if 300 \<le> h \<and> h < 360 then (c, 0, x)
             else (0, 0, 0))
      in \<lparr>rgb_r = Math_round ((r + m) * 255),
          rgb_g = Math_round ((g + m) * 255),
          rgb_b = Math_round ((b + m) * 255)\<rparr>)"

definition rgbToHsl :: "number \<Rightarrow> number \<Rightarrow> number \<Rightarrow> hsl" where
  "rgbToHsl r0 g0 b0 =
     (let r = max 0 (min 255 r0) / 255;
          g = max 0 (min 255 g0) / 255;
          b = max 0 (min 255 b0) / 255;
          mx = max r (max g b);
          mn = min r (min g b);
          diff = mx - mn;
          l = (mx + mn) / 2;
          s = (if diff \<noteq> 0
               then (if l > 1 / 2 then diff / (2 - mx - mn) else diff / (mx + mn))
               else 0);
          h = (if diff \<noteq> 0
               then (if mx = r then ((g - b) / diff + (if g < b then 6 else 0)) / 6
                     else if mx = g then ((b - r) / diff + 2) / 6
                     else if mx = b then ((r - g) / diff + 4) / 6
                     else 0)
               else 0)
      in \<lparr>hsl_h = Math_round (h * 360),
          hsl_s = Math_round (s * 100),
          hsl_l = Math_round (l * 100)\<rparr>)"

definition toHex :: "number \<Rightarrow> string" where
  "toHex n =
     (let hex = toString16 (nat \<lfloor>Math_round (max 0 (min 255 n))\<rfloor>)
      in if length hex = 1 then ''0'' @ hex else hex)"

definition rgbToHex :: "number \<Rightarrow> number \<Rightarrow> number \<Rightarrow> string" where
  "rgbToHex r g b = toUpperCase (''#'' @ toHex r @ toHex g @ toHex b)"

definition hexToRgb :: "string \<Rightarrow> error + rgb" where
  "hexToRgb hex =
     (let cleanHex = toUpperCase (replace_first CHR ''#'' hex)
      in if length cleanHex \<noteq> 6 then Inl InvalidFormat
         else (case (parseInt16 (substring cleanHex 0 2),
                     parseInt16 (substring cleanHex 2 4),
                     parseInt16 (substring cleanHex 4 6)) of
                 (Some r, Some g, Some b) \<Rightarrow>
                   Inr \<lparr>rgb_r = of_int r, rgb_g = of_int g, rgb_b = of_int b\<rparr>
               | _ \<Rightarrow> Inl InvalidFormat))"

definition hexToHsl :: "string \<Rightarrow> error + hsl" where
  "hexToHsl hex =
     (case hexToRgb hex of
        Inl e \<Rightarrow> Inl e
      | Inr c \<Rightarrow> Inr (rgbToHsl (rgb_r c) (rgb_g c) (rgb_b c)))"

definition hslToHex :: "number \<Rightarrow> number \<Rightarrow> number \<Rightarrow> string" where
  "hslToHex h s l = (let c = hslToRgb h s l in rgbToHex (rgb_r c) (rgb_g c) (rgb_b c))"

text \<open>The test \<open>/^[0-9A-Fa-f]{6}$/\<close> on the string without its first \<open>#\<close>.\<close>

definition isValidHex :: "string \<Rightarrow> bool" where
  "isValidHex hex =
     (let cleanHex = replace_first CHR ''#'' hex
      in length cleanHex = 6 \<and> list_all isHexDigit cleanHex)"

definition isValidHsl :: "number \<Rightarrow> number \<Rightarrow> number \<Rightarrow> bool" where
  "isValidHsl h s l = (h \<ge> 0 \<and> h \<le> 360 \<and> s \<ge> 0 \<and> s \<le> 100 \<and> l \<ge> 0 \<and> l \<le> 100)"

definition isValidRgb :: "number \<Rightarrow> number \<Rightarrow> number \<Rightarrow> bool" where
  "isValidRgb r g b = (r \<ge> 0 \<and> r \<le> 255 \<and> g \<ge> 0 \<and> g \<le> 255 \<and> b \<ge> 0 \<and> b \<le> 255)"

definition createColorFromHsl ::
  "number \<Rightarrow> number \<Rightarrow> number \<Rightarrow> bool \<Rightarrow> world \<Rightarrow> error + Color \<times> world" where
  "createColorFromHsl h s l locked w =
     (if \<not> isValidHsl h s l then Inl InvalidColorValue
      else (let c = hslToRgb h s l;
                hx = rgbToHex (rgb_r c) (rgb_g c) (rgb_b c);
                (uuid, w') = randomUUID w
            in Inr (\<lparr>color_id = uuid, color_hex = hx, color_rgb = c,
                      color_hsl = \<lparr>hsl_h = h, hsl_s = s, hsl_l = l\<rparr>, isLocked = locked\<rparr>, w')))"

definition createColorFromRgb ::
  "number \<Rightarrow> number \<Rightarrow> number \<Rightarrow> bool \<Rightarrow> world \<Rightarrow> error + Color \<times> world" where
  "createColorFromRgb r g b locked w =
     (if \<not> isValidRgb r g b then Inl InvalidColorValue
      else (let hx = rgbToHex r g b;
                hs = rgbToHsl r g b;
                (uuid, w') = randomUUID w
            in Inr (\<lparr>color_id = uuid, color_hex = hx, color_rgb = \<lparr>rgb_r = r, rgb_g = g, rgb_b = b\<rparr>,
                      color_hsl = hs, isLocked = locked\<rparr>, w')))"

definition createColorFromHex :: "string \<Rightarrow> bool \<Rightarrow> world \<Rightarrow> error + Color \<times> world" where
  "createColorFromHex hx locked w =
     (if \<not> isValidHex hx then Inl InvalidColorValue
      else (case hexToRgb hx of
              Inl e \<Rightarrow> Inl e
            | Inr c \<Rightarrow>
                (let hs = rgbToHsl (rgb_r c) (rgb_g c) (rgb_b c);
                     (uuid, w') = randomUUID w
                 in Inr (\<lparr>color_id = uuid, color_hex = toUpperCase hx, color_rgb = c,
                           color_hsl = hs, isLocked = locked\<rparr>, w'))))"

section \<open>ToneGenerator (src/lib/tone-generator.ts)\<close>

definition TONE_STEPS :: "ColorTone list" where
  "TONE_STEPS =
     [\<lparr>tone_label = ''50'', tone_lightness = 95, tone_hex = ''''\<rparr>,
      \<lparr>tone_label = ''100'', tone_lightness = 90, tone_hex = ''''\<rparr>,
      \<lparr>tone_label = ''200'', tone_lightness = 80, tone_hex = ''''\<rparr>,
      \<lparr>tone_label = ''300'', tone_lightness = 70, tone_hex = ''''\<rparr>,
      \<lparr>tone_label = ''400'', tone_lightness = 60, tone_hex = ''''\<rparr>,
      \<lparr>tone_label = ''500'', tone_lightness = 50, tone_hex = ''''\<rparr>,
      \<lparr>tone_label = ''600'', tone_lightness = 40, tone_hex = ''''\<rparr>,
      \<lparr>tone_label = ''700'', tone_lightness = 30, tone_hex = ''''\<rparr>,
      \<lparr>tone_label = ''800'', tone_lightness = 20, tone_hex = ''''\<rparr>,
      \<lparr>tone_label = ''900'', tone_lightness = 10, tone_hex = ''''\<rparr>]"

text \<open>\<open>xs.slice(a, b)\<close> for indices that are not negative.\<close>

definition slice :: "'a list \<Rightarrow> nat \<Rightarrow> nat \<Rightarrow> 'a list" where
  "slice xs a b = take (b - a) (drop a xs)"

definition toneOfStep :: "number \<Rightarrow> number \<Rightarrow> ColorTone \<Rightarrow> ColorTone" where
  "toneOfStep h s step =
     \<lparr>tone_label = tone_label step,
      tone_lightness = tone_lightness step,
      tone_hex = hslToHex h s (tone_lightness step)\<rparr>"

definition generateTones :: "Color \<Rightarrow> ColorTone list" where
  "generateTones baseColor =
     (let h = hsl_h (color_hsl baseColor);
          s = hsl_s (color_hsl baseColor);
          selectedSteps = slice TONE_STEPS 1 8
      in map (toneOfStep h s) selectedSteps)"

definition generateAllTones :: "Color \<Rightarrow> ColorTone list" where
  "generateAllTones baseColor =
     (let h = hsl_h (color_hsl baseColor);
          s = hsl_s (color_hsl baseColor)
      in map (toneOfStep h s) TONE_STEPS)"

text \<open>
  \<open>label || lightness.toString()\<close>: an absent label and the empty string are both
  falsy. The decimal notation that \<open>Number.prototype.toString\<close> gives a double is a
  parameter, \<open>numberToString\<close>.
\<close>

definition generateSpecificTone ::
  "(number \<Rightarrow> string) \<Rightarrow> Color \<Rightarrow> number \<Rightarrow> string option \<Rightarrow> error + ColorTone" where
  "generateSpecificTone numberToString baseColor lightness lbl =
     (if lightness < 0 \<or> lightness > 100 then Inl InvalidLightness
      else (let h = hsl_h (color_hsl baseColor);
                s = hsl_s (color_hsl baseColor)
            in Inr \<lparr>tone_label = (case lbl of
                                      None \<Rightarrow> numberToString lightness
                                    | Some t \<Rightarrow> if t = [] then numberToString lightness else t),
                      tone_lightness = lightness,
                      tone_hex = hslToHex h s lightness\<rparr>))"

fun closestLoop :: "double \<Rightarrow> ColorTone list \<Rightarrow> ColorTone \<Rightarrow> double \<Rightarrow> ColorTone" where
  "closestLoop lightness [] closestTone minDifference = closestTone"
| "closestLoop lightness (tone # rest) closestTone minDifference =
     (let difference = Math_abs (double_minus lightness (Finite (tone_lightness tone)))
      in if double_less difference minDifference
         then closestLoop lightness rest tone difference
         else closestLoop lightness rest closestTone minDifference)"

text \<open>
  The argument of \<open>findClosestTone\<close> is a double; the guard is
  \<open>lightness < 0 || lightness > 100\<close>.
\<close>

definition findClosestTone :: "double \<Rightarrow> error + ColorTone" where
  "findClosestTone lightness =
     (if double_less lightness (Finite 0) \<or> double_less (Finite 100) lightness
      then Inl InvalidLightness
      else (let closestTone = hd TONE_STEPS;
                minDifference =
                  Math_abs (double_minus lightness (Finite (tone_lightness closestTone)))
            in Inr (closestLoop lightness TONE_STEPS closestTone minDifference)))"

section \<open>PaletteGenerator (src/lib/palette-generator.ts)\<close>

definition SATURATION_MIN :: number where "SATURATION_MIN = 60"
definition SATURATION_MAX :: number where "SATURATION_MAX = 100"
definition LIGHTNESS_MIN :: number where "LIGHTNESS_MIN = 40"
definition LIGHTNESS_MAX :: number where "LIGHTNESS_MAX = 70"
definition MIN_HUE_DIFFERENCE :: number where "MIN_HUE_DIFFERENCE = 30"
definition PALETTE_SIZE :: nat where "PALETTE_SIZE = 5"

definition randomInRange :: "number \<Rightarrow> number \<Rightarrow> world \<Rightarrow> number \<times> world" where
  "randomInRange lo hi w =
     (let (u, w') = Math_random w in (Math_floor (u * (hi - lo + 1)) + lo, w'))"

definition generateRandomColor :: "world \<Rightarrow> error + Color \<times> world" where
  "generateRandomColor w =
     (let (hue, w1) = randomInRange 0 359 w;
          (saturation, w2) = randomInRange SATURATION_MIN SATURATION_MAX w1;
          (lightness, w3) = randomInRange LIGHTNESS_MIN LIGHTNESS_MAX w2
      in createColorFromHsl hue saturation lightness False w3)"

definition getMinHueDifference :: "number \<Rightarrow> number list \<Rightarrow> number" where
  "getMinHueDifference newHue existingHues =
     (if length existingHues = 0 then 360
      else Min (set (map (\<lambda>existingHue.
                            let diff = \<bar>newHue - existingHue\<bar> in min diff (360 - diff))
                         existingHues)))"

text \<open>
  The loop of \<open>generateDistinctColor\<close>, on the number of attempts left: a hue that
  is far enough from every existing hue ends it, and when no attempt is left the
  result is \<open>generateRandomColor()\<close>.
\<close>

fun distinctLoop :: "number list \<Rightarrow> nat \<Rightarrow> world \<Rightarrow> error + Color \<times> world" where
  "distinctLoop existingHues 0 w = generateRandomColor w"
| "distinctLoop existingHues (Suc attemptsLeft) w =
     (let (hue, w1) = randomInRange 0 359 w;
          minDifference = getMinHueDifference hue existingHues
      in if minDifference \<ge> MIN_HUE_DIFFERENCE
         then (let (saturation, w2) = randomInRange SATURATION_MIN SATURATION_MAX w1;
                   (lightness, w3) = randomInRange LIGHTNESS_MIN LIGHTNESS_MAX w2
               in createColorFromHsl hue saturation lightness False w3)
         else distinctLoop existingHues attemptsLeft w1)"

definition generateDistinctColor :: "Color list \<Rightarrow> nat \<Rightarrow> world \<Rightarrow> error + Color \<times> world" where
  "generateDistinctColor existingColors maxAttempts w =
     (let existingHues = map (\<lambda>color. hsl_h (color_hsl color)) existingColors
      in distinctLoop existingHues maxAttempts w)"

text \<open>
  The loop \<open>for (let i = 0; i < colorsNeeded; i++)\<close>, on the number of rounds left;
  an exception of \<open>generateDistinctColor\<close> ends it.
\<close>

fun fillLoop :: "nat \<Rightarrow> Color list \<Rightarrow> world \<Rightarrow> error + Color list \<times> world" where
  "fillLoop 0 newColors w = Inr (newColors, w)"
| "fillLoop (Suc roundsLeft) newColors w =
     (case generateDistinctColor newColors 50 w of
        Inl e \<Rightarrow> Inl e
      | Inr (newColor, w') \<Rightarrow> fillLoop roundsLeft (newColors @ [newColor]) w')"

definition generateHarmoniousPalette ::
  "Color list \<Rightarrow> PaletteGenerationOptions option \<Rightarrow> world \<Rightarrow> error + Palette \<times> world" where
  "generateHarmoniousPalette existingColors options w =
     (let preserve = (case options of
                        None \<Rightarrow> True
                      | Some opts \<Rightarrow> (case preserveLocked opts of None \<Rightarrow> True | Some p \<Rightarrow> p));
          lockedColors = (if preserve then filter isLocked existingColors else []);
          colorsNeeded = int PALETTE_SIZE - int (length lockedColors)
      in case fillLoop (nat colorsNeeded) lockedColors w of
           Inl e \<Rightarrow> Inl e
         | Inr (newColors, w') \<Rightarrow>
             Inr (\<lparr>colors = slice newColors 0 PALETTE_SIZE,
                   palette_name = None,
                   createdAt = clock w'\<rparr>, w'))"

definition generateFreshPalette :: "world \<Rightarrow> error + Palette \<times> world" where
  "generateFreshPalette w =
     generateHarmoniousPalette [] (Some \<lparr>preserveLocked = Some False\<rparr>) w"

definition regeneratePalette :: "Palette \<Rightarrow> world \<Rightarrow> error + Palette \<times> world" where
  "regeneratePalette currentPalette w =
     generateHarmoniousPalette (colors currentPalette) (Some \<lparr>preserveLocked = Some True\<rparr>) w"

definition toggleColorLock :: "Palette \<Rightarrow> string \<Rightarrow> Palette" where
  "toggleColorLock palette colorId =
     (let updatedColors =
            map (\<lambda>color. if color_id color = colorId
                         then color\<lparr>isLocked := \<not> isLocked color\<rparr>
                         else color) (colors palette)
      in palette\<lparr>colors := updatedColors\<rparr>)"

section \<open>Vocabulary of the properties\<close>

text \<open>The hues of a list of colors: \<open>colors.map(color => color.hsl.h)\<close>.\<close>

definition hues :: "Color list \<Rightarrow> number list" where
  "hues cs = map (\<lambda>color. hsl_h (color_hsl color)) cs"

text \<open>
  The circular distance \<open>min(|a - b|, 360 - |a - b|)\<close> of two hues; two hues are far
  apart when it is at least 30.
\<close>

definition hueDistance :: "number \<Rightarrow> number \<Rightarrow> number" where
  "hueDistance a b = (let diff = \<bar>a - b\<bar> in min diff (360 - diff))"

definition farApart :: "number \<Rightarrow> number \<Rightarrow> bool" where
  "farApart a b = (hueDistance a b \<ge> MIN_HUE_DIFFERENCE)"

text \<open>
  What \<open>generateRandomColor\<close> and \<open>generateDistinctColor\<close> put into a color: an
  integer hue from 0 to 359, an integer saturation from 60 to 100, an integer
  lightness from 40 to 70, unlocked.
\<close>

definition generatedHsl :: "Color \<Rightarrow> bool" where
  "generatedHsl c =
     (hsl_h (color_hsl c) \<in> \<int> \<and> 0 \<le> hsl_h (color_hsl c) \<and> hsl_h (color_hsl c) \<le> 359
      \<and> hsl_s (color_hsl c) \<in> \<int> \<and> 60 \<le> hsl_s (color_hsl c) \<and> hsl_s (color_hsl c) \<le> 100
      \<and> hsl_l (color_hsl c) \<in> \<int> \<and> 40 \<le> hsl_l (color_hsl c) \<and> hsl_l (color_hsl c) \<le> 70
      \<and> \<not> isLocked c)"

text \<open>
  \<open>attemptsExhausted\<close> follows the loop of \<open>generateDistinctColor\<close> and tells whether
  every attempt drew a hue too close to an existing one, so that the color comes
  from the fallback \<open>generateRandomColor()\<close>. \<open>fallbackFree\<close> follows the loop of
  \<open>generateHarmoniousPalette\<close> and tells whether no color of the palette came from
  the fallback.
\<close>

fun attemptsExhausted :: "number list \<Rightarrow> nat \<Rightarrow> world \<Rightarrow> bool" where
  "attemptsExhausted existingHues 0 w = True"
| "attemptsExhausted existingHues (Suc attemptsLeft) w =
     (let (hue, w1) = randomInRange 0 359 w
      in if getMinHueDifference hue existingHues \<ge> MIN_HUE_DIFFERENCE then False
         else attemptsExhausted existingHues attemptsLeft w1)"

fun fallbackFree :: "nat \<Rightarrow> Color list \<Rightarrow> world \<Rightarrow> bool" where
  "fallbackFree 0 newColors w = True"
| "fallbackFree (Suc roundsLeft) newColors w =
     (\<not> attemptsExhausted (map (\<lambda>color. hsl_h (color_hsl color)) newColors) 50 w
      \<and> (case generateDistinctColor newColors 50 w of
            Inl e \<Rightarrow> False
          | Inr (newColor, w') \<Rightarrow> fallbackFree roundsLeft (newColors @ [newColor]) w'))"

text \<open>
  The integer that \<open>rgbToHex\<close> writes for a channel, and the upper-case
  hexadecimal digit of a number below 16.
\<close>

definition channel :: "number \<Rightarrow> nat" where
  "channel n = nat \<lfloor>Math_round (max 0 (min 255 n))\<rfloor>"

definition upperHex :: "nat \<Rightarrow> char" where
  "upperHex d = toUpperCase_char (hexDigit d)"

section \<open>Concrete inputs\<close>

text \<open>
  Two colors of hue 9 and saturation 100 that differ in every other field, three
  more colors, and palettes made of them.
\<close>

definition colorA :: Color where
  "colorA = \<lparr>color_id = ''a'', color_hex = ''#FF5233'',
              color_rgb = \<lparr>rgb_r = 255, rgb_g = 82, rgb_b = 51\<rparr>,
              color_hsl = \<lparr>hsl_h = 9, hsl_s = 100, hsl_l = 60\<rparr>, isLocked = False\<rparr>"

definition colorB :: Color where
  "colorB = \<lparr>color_id = ''b'', color_hex = ''#CC1F00'',
              color_rgb = \<lparr>rgb_r = 204, rgb_g = 31, rgb_b = 0\<rparr>,
              color_hsl = \<lparr>hsl_h = 9, hsl_s = 100, hsl_l = 40\<rparr>, isLocked = True\<rparr>"

definition colorC :: Color where
  "colorC = \<lparr>color_id = ''c'', color_hex = ''#29A329'',
              color_rgb = \<lparr>rgb_r = 41, rgb_g = 163, rgb_b = 41\<rparr>,
              color_hsl = \<lparr>hsl_h = 120, hsl_s = 60, hsl_l = 40\<rparr>, isLocked = False\<rparr>"

definition colorD :: Color where
  "colorD = \<lparr>color_id = ''d'', color_hex = ''#29A3A3'',
              color_rgb = \<lparr>rgb_r = 41, rgb_g = 163, rgb_b = 163\<rparr>,
              color_hsl = \<lparr>hsl_h = 180, hsl_s = 60, hsl_l = 40\<rparr>, isLocked = True\<rparr>"

definition colorE :: Color where
  "colorE = \<lparr>color_id = ''e'', color_hex = ''#2929A3'',
              color_rgb = \<lparr>rgb_r = 41, rgb_g = 41, rgb_b = 163\<rparr>,
              color_hsl = \<lparr>hsl_h = 240, hsl_s = 60, hsl_l = 40\<rparr>, isLocked = False\<rparr>"

definition twoColors :: Palette where
  "twoColors = \<lparr>colors = [colorA, colorB], palette_name = None, createdAt = 0\<rparr>"

definition fiveColors :: Palette where
  "fiveColors = \<lparr>colors = [colorA, colorB, colorC, colorD, colorE],
                  palette_name = None, createdAt = 0\<rparr>"

text \<open>
  A random source whose every draw is 0, and one whose draws 0, 3, 6, ... are
  0, 1/6, 2/6, 3/6, 4/6, 5/6, 0, 1/6, ... and whose other draws are 0.
\<close>

definition zeroWorld :: world where
  "zeroWorld = \<lparr>random_src = (\<lambda>i. 0), random_pos = 0,
                 uuid_src = (\<lambda>i. replicate (Suc i) CHR ''u''), uuid_pos = 0, clock = 7\<rparr>"

definition spreadWorld :: world where
  "spreadWorld = \<lparr>random_src = (\<lambda>i. if i mod 3 = 0 then of_nat (i div 3 mod 6) / 6 else 0),
                   random_pos = 0,
                   uuid_src = (\<lambda>i. replicate (Suc i) CHR ''u''), uuid_pos = 0, clock = 7\<rparr>"

text \<open>The decimal notation of a number that is a non-negative integer.\<close>

fun decimalString :: "nat \<Rightarrow> string" where
  "decimalString n =
     (if n < 10 then [''0123456789'' ! n]
      else decimalString (n div 10) @ [''0123456789'' ! (n mod 10)])"

declare decimalString.simps [simp del]

definition integerToString :: "number \<Rightarrow> string" where
  "integerToString x = decimalString (nat \<lfloor>x\<rfloor>)"

section \<open>The tone generator\<close>

text \<open>
  The scan of \<open>findClosestTone\<close> for a finite lightness, started with a tone \<open>b\<close> as
  the closest so far, returns an element of \<open>b # ts\<close>; every element before it is strictly farther from
  the wanted lightness, and every element after it is at least as far.
\<close>

lemma closestLoop_split:
  "\<exists>pre post. b # ts = pre @ closestLoop (Finite x) ts b (Finite \<bar>x - tone_lightness b\<bar>) # post
     \<and> (\<forall>u \<in> set pre. \<bar>x - tone_lightness (closestLoop (Finite x) ts b (Finite \<bar>x - tone_lightness b\<bar>))\<bar>
                           < \<bar>x - tone_lightness u\<bar>)
     \<and> (\<forall>u \<in> set post. \<bar>x - tone_lightness (closestLoop (Finite x) ts b (Finite \<bar>x - tone_lightness b\<bar>))\<bar>
                           \<le> \<bar>x - tone_lightness u\<bar>)"
proof (induction ts arbitrary: b)
  case Nil
  have "[b] = [] @ b # []" by simp
  then show ?case by fastforce
next
  case (Cons t ts)
  let ?d = "\<lambda>u. \<bar>x - tone_lightness u\<bar>"
  show ?case
  proof (cases "?d t < ?d b")
    case True
    let ?r = "closestLoop (Finite x) ts t (Finite (?d t))"
    from Cons.IH [of t] obtain pre post where
      sp: "t # ts = pre @ ?r # post"
      and lt: "\<forall>u \<in> set pre. ?d ?r < ?d u"
      and le: "\<forall>u \<in> set post. ?d ?r \<le> ?d u"
      by blast
    have rt: "?d ?r \<le> ?d t"
    proof (cases pre)
      case Nil
      with sp have "?r = t" by (metis append_Nil list.inject)
      then show ?thesis by simp
    next
      case (Cons p ps)
      with sp have "p = t" by (metis append_Cons list.inject)
      with Cons lt show ?thesis by simp
    qed
    have eq: "closestLoop (Finite x) (t # ts) b (Finite (?d b)) = ?r" using True by simp
    have "b # t # ts = (b # pre) @ ?r # post" using sp by simp
    moreover have "\<forall>u \<in> set (b # pre). ?d ?r < ?d u" using lt rt True by auto
    ultimately show ?thesis using le unfolding eq by blast
  next
    case False
    let ?r = "closestLoop (Finite x) ts b (Finite (?d b))"
    from Cons.IH [of b] obtain pre post where
      sp: "b # ts = pre @ ?r # post"
      and lt: "\<forall>u \<in> set pre. ?d ?r < ?d u"
      and le: "\<forall>u \<in> set post. ?d ?r \<le> ?d u"
      by blast
    have eq: "closestLoop (Finite x) (t # ts) b (Finite (?d b)) = ?r" using False by simp
    show ?thesis
    proof (cases pre)
      case Nil
      with sp have rb: "?r = b" and "post = ts" by (metis append_Nil list.inject)+
      then have "b # t # ts = [] @ ?r # (t # post)" by simp
      moreover have "\<forall>u \<in> set (t # post). ?d ?r \<le> ?d u" using le rb False by auto
      moreover have "\<forall>u \<in> set []. ?d ?r < ?d u" by simp
      ultimately show ?thesis unfolding eq by blast
    next
      case (Cons p ps)
      with sp have pb: "p = b" and ts: "ts = ps @ ?r # post"
        by (metis append_Cons list.inject)+
      have "?d ?r < ?d b" using lt Cons pb by simp
      then have "?d ?r < ?d t" using False by simp
      then have "\<forall>u \<in> set (b # t # ps). ?d ?r < ?d u" using lt Cons pb by auto
      moreover have "b # t # ts = (b # t # ps) @ ?r # post" using ts by simp
      ultimately show ?thesis using le unfolding eq by blast
    qed
  qed
qed

text \<open>
  For a finite lightness in [0,100], \<open>findClosestTone\<close> returns a step \<open>t\<close> of the
  standard table such that every step before \<open>t\<close> in the table is strictly farther
  from the lightness and every step after \<open>t\<close> is at least as far: \<open>t\<close> minimises the
  absolute difference, and of two equally close steps the earlier (lighter) one is
  returned. A finite lightness below 0 or above 100 and the two infinities raise
  \<open>InvalidLightness\<close>. \<open>findClosestTone(52)\<close> is the step with label "500" and
  lightness 50.
\<close>

lemma findClosestTone_finite:
  "(0 \<le> x \<and> x \<le> 100 \<longrightarrow>
      (\<exists>pre t post. findClosestTone (Finite x) = Inr t \<and> TONE_STEPS = pre @ t # post
         \<and> (\<forall>u \<in> set pre. \<bar>x - tone_lightness t\<bar> < \<bar>x - tone_lightness u\<bar>)
         \<and> (\<forall>u \<in> set post. \<bar>x - tone_lightness t\<bar> \<le> \<bar>x - tone_lightness u\<bar>)))
   \<and> (x < 0 \<or> x > 100 \<longrightarrow> findClosestTone (Finite x) = Inl InvalidLightness)
   \<and> findClosestTone PosInfinity = Inl InvalidLightness
   \<and> findClosestTone NegInfinity = Inl InvalidLightness
   \<and> findClosestTone (Finite 52)
       = Inr \<lparr>tone_label = ''500'', tone_lightness = 50, tone_hex = ''''\<rparr>"
proof (intro conjI impI)
  assume range: "0 \<le> x \<and> x \<le> 100"
  let ?b = "hd TONE_STEPS"
  let ?r = "closestLoop (Finite x) TONE_STEPS ?b (Finite \<bar>x - tone_lightness ?b\<bar>)"
  let ?d = "\<lambda>u. \<bar>x - tone_lightness u\<bar>"
  have res: "findClosestTone (Finite x) = Inr ?r" using range by (simp add: findClosestTone_def Let_def)
  from closestLoop_split [of ?b TONE_STEPS x] obtain pre post where
    sp: "?b # TONE_STEPS = pre @ ?r # post"
    and lt: "\<forall>u \<in> set pre. ?d ?r < ?d u"
    and le: "\<forall>u \<in> set post. ?d ?r \<le> ?d u"
    by blast
  have ne: "TONE_STEPS = ?b # tl TONE_STEPS" by (simp add: TONE_STEPS_def)
  show "\<exists>pre t post. findClosestTone (Finite x) = Inr t \<and> TONE_STEPS = pre @ t # post
         \<and> (\<forall>u \<in> set pre. ?d t < ?d u) \<and> (\<forall>u \<in> set post. ?d t \<le> ?d u)"
  proof (cases pre)
    case Nil
    with sp have rb: "?r = ?b" and post: "post = TONE_STEPS"
      by (metis append_Nil list.inject)+
    have "TONE_STEPS = [] @ ?r # tl TONE_STEPS" using ne rb by simp
    moreover have "\<forall>u \<in> set (tl TONE_STEPS). ?d ?r \<le> ?d u"
      using le post ne by (metis list.set_intros(2))
    moreover have "\<forall>u \<in> set []. ?d ?r < ?d u" by simp
    ultimately show ?thesis using res by blast
  next
    case (Cons p ps)
    with sp have "TONE_STEPS = ps @ ?r # post" by (metis append_Cons list.inject)
    moreover have "\<forall>u \<in> set ps. ?d ?r < ?d u" using lt Cons by simp
    ultimately show ?thesis using res le by blast
  qed
next
  assume "x < 0 \<or> x > 100"
  then show "findClosestTone (Finite x) = Inl InvalidLightness"
    by (auto simp: findClosestTone_def)
next
  show "findClosestTone PosInfinity = Inl InvalidLightness" by (simp add: findClosestTone_def)
next
  show "findClosestTone NegInfinity = Inl InvalidLightness" by (simp add: findClosestTone_def)
next
  show "findClosestTone (Finite 52)
          = Inr \<lparr>tone_label = ''500'', tone_lightness = 50, tone_hex = ''''\<rparr>"
    by (simp add: findClosestTone_def TONE_STEPS_def)
qed

text \<open>
  At 85 the steps "100" (lightness 90) and "200" (lightness 80) are equally close
  and the earlier one is returned.
\<close>

lemma findClosestTone_tie:
  "findClosestTone (Finite 85)
     = Inr \<lparr>tone_label = ''100'', tone_lightness = 90, tone_hex = ''''\<rparr>"
  by (simp add: findClosestTone_def TONE_STEPS_def)

text \<open>
  C8. \<open>findClosestTone\<close> returns the closest step for a lightness in [0,100] and is
  to raise \<open>InvalidLightness\<close> for every other lightness. The program does not raise
  for \<open>NaN\<close>, which is not in [0,100]: both comparisons of the guard are false, no
  difference is less than the first one, and the first step of the table, with
  label "50" and lightness 95, is returned.
\<close>

theorem findClosestTone_NaN:
  "findClosestTone NaN = Inr \<lparr>tone_label = ''50'', tone_lightness = 95, tone_hex = ''''\<rparr>"
  by (simp add: findClosestTone_def TONE_STEPS_def)

text \<open>
  C10. Two base colors with the same hue and the same saturation give the same
  result in \<open>generateTones\<close>, in \<open>generateAllTones\<close> and, for the same lightness and
  label, in \<open>generateSpecificTone\<close>, whatever their other fields are.
\<close>

theorem tones_depend_on_hue_saturation:
  assumes "hsl_h (color_hsl c1) = hsl_h (color_hsl c2)"
      and "hsl_s (color_hsl c1) = hsl_s (color_hsl c2)"
  shows "generateTones c1 = generateTones c2
       \<and> generateAllTones c1 = generateAllTones c2
       \<and> generateSpecificTone toStr c1 lightness lbl = generateSpecificTone toStr c2 lightness lbl"
  using assms by (simp add: generateTones_def generateAllTones_def generateSpecificTone_def)

theorem tones_depend_on_hue_saturation_witness:
  "hsl_h (color_hsl colorA) = hsl_h (color_hsl colorB)
   \<and> hsl_s (color_hsl colorA) = hsl_s (color_hsl colorB)
   \<and> hsl_l (color_hsl colorA) \<noteq> hsl_l (color_hsl colorB)
   \<and> color_id colorA \<noteq> color_id colorB
   \<and> color_hex colorA \<noteq> color_hex colorB
   \<and> color_rgb colorA \<noteq> color_rgb colorB
   \<and> isLocked colorA \<noteq> isLocked colorB
   \<and> generateTones colorA = generateTones colorB
   \<and> generateAllTones colorA = generateAllTones colorB
   \<and> generateSpecificTone integerToString colorA 52 None
       = generateSpecificTone integerToString colorB 52 None"
  using tones_depend_on_hue_saturation [of colorA colorB integerToString 52 None]
  by (simp add: colorA_def colorB_def)

section \<open>The lock toggle\<close>

text \<open>
  C9. \<open>toggleColorLock(p, id)\<close> returns a palette with as many colors as \<open>p\<close>; at
  every position, a color whose id is \<open>id\<close> has its \<open>isLocked\<close> flag inverted and its
  other fields unchanged, and a color with another id is unchanged; when no color
  has the id, the colors are those of \<open>p\<close>. The name and the creation time of the
  palette stay, and there is no error.
\<close>

theorem toggleColorLock_frame:
  "length (colors (toggleColorLock p cid)) = length (colors p)
   \<and> (\<forall>i < length (colors p).
        (color_id (colors p ! i) = cid \<longrightarrow>
           colors (toggleColorLock p cid) ! i
             = (colors p ! i)\<lparr>isLocked := \<not> isLocked (colors p ! i)\<rparr>)
      \<and> (color_id (colors p ! i) \<noteq> cid \<longrightarrow>
           colors (toggleColorLock p cid) ! i = colors p ! i))
   \<and> ((\<forall>c \<in> set (colors p). color_id c \<noteq> cid) \<longrightarrow> colors (toggleColorLock p cid) = colors p)
   \<and> palette_name (toggleColorLock p cid) = palette_name p
   \<and> createdAt (toggleColorLock p cid) = createdAt p"
  by (auto simp: toggleColorLock_def intro: map_idI)

theorem toggleColorLock_frame_witness:
  "(0::nat) < length (colors twoColors) \<and> color_id (colors twoColors ! 0) = ''a''
   \<and> colors (toggleColorLock twoColors ''a'') ! 0 = colorA\<lparr>isLocked := True\<rparr>
   \<and> (1::nat) < length (colors twoColors) \<and> color_id (colors twoColors ! 1) \<noteq> ''a''
   \<and> colors (toggleColorLock twoColors ''a'') ! 1 = colorB
   \<and> color_id colorA \<noteq> ''z'' \<and> color_id colorB \<noteq> ''z''
   \<and> colors (toggleColorLock twoColors ''z'') = colors twoColors"
  using toggleColorLock_frame [of twoColors "''a''"] toggleColorLock_frame [of twoColors "''z''"]
  by (simp add: twoColors_def colorA_def colorB_def)

section \<open>The palette generator\<close>

subsection \<open>Draws and single colors\<close>

lemma validRandom_pos [simp]: "validRandom (w\<lparr>random_pos := n\<rparr>) = validRandom w"
  by (simp add: validRandom_def)

lemma validRandom_uuid [simp]: "validRandom (w\<lparr>uuid_pos := n\<rparr>) = validRandom w"
  by (simp add: validRandom_def)

lemma floor_scaled_bounds:
  fixes u :: rat
  assumes "0 \<le> u" "u < 1" "0 < n"
  shows "0 \<le> \<lfloor>u * of_int n\<rfloor> \<and> \<lfloor>u * of_int n\<rfloor> \<le> n - 1"
proof -
  have "0 \<le> u * of_int n" using assms by simp
  then have a: "0 \<le> \<lfloor>u * of_int n\<rfloor>" by simp
  have "u * of_int n < of_int n" using assms by simp
  then have "\<lfloor>u * of_int n\<rfloor> < n" by (simp add: floor_less_iff)
  with a show ?thesis by simp
qed

lemma randomInRange_int:
  assumes "validRandom w" "a \<le> b"
  shows "\<exists>k. randomInRange (of_int a) (of_int b) w = (of_int k, w\<lparr>random_pos := Suc (random_pos w)\<rparr>)
            \<and> a \<le> k \<and> k \<le> b"
proof -
  let ?u = "random_src w (random_pos w)"
  have u: "0 \<le> ?u" "?u < 1" using assms(1) by (simp_all add: validRandom_def)
  have n: "0 < b - a + 1" using assms(2) by simp
  from floor_scaled_bounds [OF u n]
  have fb: "0 \<le> \<lfloor>?u * of_int (b - a + 1)\<rfloor>" "\<lfloor>?u * of_int (b - a + 1)\<rfloor> \<le> b - a" by simp_all
  let ?k = "\<lfloor>?u * of_int (b - a + 1)\<rfloor> + a"
  have "randomInRange (of_int a) (of_int b) w = (of_int ?k, w\<lparr>random_pos := Suc (random_pos w)\<rparr>)"
    by (simp add: randomInRange_def Math_random_def Math_floor_def)
  moreover have "a \<le> ?k" "?k \<le> b" using fb by simp_all
  ultimately show ?thesis by blast
qed

lemma randomInRange_hue:
  assumes "validRandom w"
  shows "\<exists>k. randomInRange 0 359 w = (of_int k, w\<lparr>random_pos := Suc (random_pos w)\<rparr>)
            \<and> 0 \<le> k \<and> k \<le> 359"
  using randomInRange_int [OF assms, of 0 359] by simp

lemma randomInRange_saturation:
  assumes "validRandom w"
  shows "\<exists>k. randomInRange SATURATION_MIN SATURATION_MAX w
               = (of_int k, w\<lparr>random_pos := Suc (random_pos w)\<rparr>) \<and> 60 \<le> k \<and> k \<le> 100"
  using randomInRange_int [OF assms, of 60 100] by (simp add: SATURATION_MIN_def SATURATION_MAX_def)

lemma randomInRange_lightness:
  assumes "validRandom w"
  shows "\<exists>k. randomInRange LIGHTNESS_MIN LIGHTNESS_MAX w
               = (of_int k, w\<lparr>random_pos := Suc (random_pos w)\<rparr>) \<and> 40 \<le> k \<and> k \<le> 70"
  using randomInRange_int [OF assms, of 40 70] by (simp add: LIGHTNESS_MIN_def LIGHTNESS_MAX_def)

lemma createColorFromHsl_ok:
  assumes "isValidHsl h s l"
  shows "\<exists>c. createColorFromHsl h s l lk w = Inr (c, w\<lparr>uuid_pos := Suc (uuid_pos w)\<rparr>)
           \<and> color_hsl c = \<lparr>hsl_h = h, hsl_s = s, hsl_l = l\<rparr> \<and> isLocked c = lk"
  using assms by (simp add: createColorFromHsl_def randomUUID_def Let_def)

text \<open>A hue, a saturation and a lightness drawn in their ranges make a color.\<close>

lemma drawn_color:
  assumes "validRandom w1" "0 \<le> k" "k \<le> 359"
  shows "\<exists>c w'. (let (saturation, w2) = randomInRange SATURATION_MIN SATURATION_MAX w1;
                     (lightness, w3) = randomInRange LIGHTNESS_MIN LIGHTNESS_MAX w2
                 in createColorFromHsl (of_int k) saturation lightness False w3) = Inr (c, w')
            \<and> validRandom w' \<and> generatedHsl c \<and> hsl_h (color_hsl c) = of_int k"
proof -
  from randomInRange_saturation [OF assms(1)] obtain ks where
    s: "randomInRange SATURATION_MIN SATURATION_MAX w1 = (of_int ks, w1\<lparr>random_pos := Suc (random_pos w1)\<rparr>)"
    and ks: "60 \<le> ks" "ks \<le> 100" by blast
  let ?w2 = "w1\<lparr>random_pos := Suc (random_pos w1)\<rparr>"
  have v2: "validRandom ?w2" using assms(1) by simp
  from randomInRange_lightness [OF v2] obtain kl where
    l: "randomInRange LIGHTNESS_MIN LIGHTNESS_MAX ?w2 = (of_int kl, ?w2\<lparr>random_pos := Suc (random_pos ?w2)\<rparr>)"
    and kl: "40 \<le> kl" "kl \<le> 70" by blast
  let ?w3 = "?w2\<lparr>random_pos := Suc (random_pos ?w2)\<rparr>"
  have valid: "isValidHsl (of_int k) (of_int ks) (of_int kl)"
    using assms(2,3) ks kl by (simp add: isValidHsl_def)
  from createColorFromHsl_ok [OF valid, of False ?w3] obtain c where
    c: "createColorFromHsl (of_int k) (of_int ks) (of_int kl) False ?w3
          = Inr (c, ?w3\<lparr>uuid_pos := Suc (uuid_pos ?w3)\<rparr>)"
    and hc: "color_hsl c = \<lparr>hsl_h = of_int k, hsl_s = of_int ks, hsl_l = of_int kl\<rparr>"
    and lc: "isLocked c = False" by blast
  have "generatedHsl c" using hc lc assms(2,3) ks kl by (simp add: generatedHsl_def)
  moreover have "validRandom (?w3\<lparr>uuid_pos := Suc (uuid_pos ?w3)\<rparr>)" using assms(1) by simp
  ultimately show ?thesis using s l c hc by (simp del: validRandom_pos validRandom_uuid)
qed

lemma generateRandomColor_ok:
  assumes "validRandom w"
  shows "\<exists>c w'. generateRandomColor w = Inr (c, w') \<and> validRandom w' \<and> generatedHsl c"
proof -
  from randomInRange_hue [OF assms] obtain k where
    h: "randomInRange 0 359 w = (of_int k, w\<lparr>random_pos := Suc (random_pos w)\<rparr>)"
    and k: "0 \<le> k" "k \<le> 359" by blast
  have v1: "validRandom (w\<lparr>random_pos := Suc (random_pos w)\<rparr>)" using assms by simp
  from drawn_color [OF v1 k] show ?thesis
    unfolding generateRandomColor_def h by (simp del: validRandom_pos) blast
qed

lemma distinctLoop_ok:
  assumes "validRandom w"
  shows "\<exists>c w'. distinctLoop hs n w = Inr (c, w') \<and> validRandom w' \<and> generatedHsl c
           \<and> (\<not> attemptsExhausted hs n w \<longrightarrow>
                 getMinHueDifference (hsl_h (color_hsl c)) hs \<ge> MIN_HUE_DIFFERENCE)"
  using assms
proof (induction n arbitrary: w)
  case 0
  from generateRandomColor_ok [OF 0] show ?case by auto
next
  case (Suc n)
  from randomInRange_hue [OF Suc.prems] obtain k where
    h: "randomInRange 0 359 w = (of_int k, w\<lparr>random_pos := Suc (random_pos w)\<rparr>)"
    and k: "0 \<le> k" "k \<le> 359" by blast
  let ?w1 = "w\<lparr>random_pos := Suc (random_pos w)\<rparr>"
  have v1: "validRandom ?w1" using Suc.prems by simp
  show ?case
  proof (cases "getMinHueDifference (of_int k) hs \<ge> MIN_HUE_DIFFERENCE")
    case True
    from drawn_color [OF v1 k] obtain c w' where
      "(let (saturation, w2) = randomInRange SATURATION_MIN SATURATION_MAX ?w1;
            (lightness, w3) = randomInRange LIGHTNESS_MIN LIGHTNESS_MAX w2
        in createColorFromHsl (of_int k) saturation lightness False w3) = Inr (c, w')"
      and "validRandom w'" "generatedHsl c" "hsl_h (color_hsl c) = of_int k" by blast
    then show ?thesis using True h by (simp del: validRandom_pos)
  next
    case False
    from Suc.IH [OF v1] show ?thesis using False h by (simp del: validRandom_pos)
  qed
qed

lemma hueDistance_sym: "hueDistance a b = hueDistance b a"
  by (simp add: hueDistance_def abs_minus_commute)

lemma getMinHueDifference_ge:
  "(getMinHueDifference x hs \<ge> MIN_HUE_DIFFERENCE) = (\<forall>y \<in> set hs. farApart y x)"
proof (cases "hs = []")
  case True
  then show ?thesis by (simp add: getMinHueDifference_def MIN_HUE_DIFFERENCE_def)
next
  case False
  have inl: "(\<lambda>existingHue. let diff = \<bar>x - existingHue\<bar> in min diff (360 - diff)) = hueDistance x"
    by (simp add: hueDistance_def fun_eq_iff)
  have "(MIN_HUE_DIFFERENCE \<le> Min (set (map (hueDistance x) hs)))
               = (\<forall>d \<in> set (map (hueDistance x) hs). MIN_HUE_DIFFERENCE \<le> d)"
    using False by (intro Min_ge_iff) simp_all
  then show ?thesis using False
    by (auto simp: getMinHueDifference_def inl farApart_def hueDistance_sym)
qed

subsection \<open>The loops\<close>

lemma fillLoop_ok:
  assumes "validRandom w"
  shows "\<exists>gen w'. fillLoop k cs w = Inr (cs @ gen, w') \<and> length gen = k \<and> validRandom w'
           \<and> (\<forall>c \<in> set gen. generatedHsl c)
           \<and> (fallbackFree k cs w \<longrightarrow> sorted_wrt farApart (hues cs)
                 \<longrightarrow> sorted_wrt farApart (hues (cs @ gen)))"
  using assms
proof (induction k arbitrary: cs w)
  case 0
  show ?case using 0 by simp
next
  case (Suc k)
  from distinctLoop_ok [OF Suc.prems, of "hues cs" 50] obtain c w1 where
    d: "distinctLoop (hues cs) 50 w = Inr (c, w1)"
    and v1: "validRandom w1" and g: "generatedHsl c"
    and far: "\<not> attemptsExhausted (hues cs) 50 w \<longrightarrow>
                getMinHueDifference (hsl_h (color_hsl c)) (hues cs) \<ge> MIN_HUE_DIFFERENCE"
    by blast
  have gd: "generateDistinctColor cs 50 w = Inr (c, w1)"
    using d by (simp add: generateDistinctColor_def hues_def)
  from Suc.IH [OF v1, of "cs @ [c]"] obtain gen w' where
    f: "fillLoop k (cs @ [c]) w1 = Inr ((cs @ [c]) @ gen, w')"
    and len: "length gen = k" and v': "validRandom w'"
    and gg: "\<forall>c \<in> set gen. generatedHsl c"
    and sp: "fallbackFree k (cs @ [c]) w1 \<longrightarrow> sorted_wrt farApart (hues (cs @ [c]))
               \<longrightarrow> sorted_wrt farApart (hues ((cs @ [c]) @ gen))"
    by blast
  have res: "fillLoop (Suc k) cs w = Inr (cs @ (c # gen), w')" using gd f by simp
  have spaced: "sorted_wrt farApart (hues (cs @ (c # gen)))"
    if ff: "fallbackFree (Suc k) cs w" and sw: "sorted_wrt farApart (hues cs)"
  proof -
    from ff have ne: "\<not> attemptsExhausted (hues cs) 50 w" and ff': "fallbackFree k (cs @ [c]) w1"
      using gd by (simp_all add: hues_def)
    from far ne have "\<forall>y \<in> set (hues cs). farApart y (hsl_h (color_hsl c))"
      by (simp add: getMinHueDifference_ge)
    then have "sorted_wrt farApart (hues (cs @ [c]))"
      using sw by (simp add: hues_def sorted_wrt_append)
    with sp ff' show ?thesis by simp
  qed
  show ?case
    using res len v' g gg spaced by (intro exI [of _ "c # gen"] exI [of _ w']) simp
qed

lemma generateHarmoniousPalette_ok:
  assumes "validRandom w"
  shows "\<exists>gen w'. generateHarmoniousPalette existing options w
             = Inr (\<lparr>colors = take 5 ((if (case options of None \<Rightarrow> True
                                             | Some opts \<Rightarrow> (case preserveLocked opts of None \<Rightarrow> True | Some p \<Rightarrow> p))
                                         then filter isLocked existing else []) @ gen),
                     palette_name = None, createdAt = clock w'\<rparr>, w')
           \<and> length gen = 5 - length (if (case options of None \<Rightarrow> True
                                             | Some opts \<Rightarrow> (case preserveLocked opts of None \<Rightarrow> True | Some p \<Rightarrow> p))
                                         then filter isLocked existing else [])
           \<and> validRandom w' \<and> (\<forall>c \<in> set gen. generatedHsl c)"
proof -
  let ?locked = "if (case options of None \<Rightarrow> True
                     | Some opts \<Rightarrow> (case preserveLocked opts of None \<Rightarrow> True | Some p \<Rightarrow> p))
                 then filter isLocked existing else []"
  from fillLoop_ok [OF assms, of "5 - length ?locked" ?locked] obtain gen w' where
    "fillLoop (5 - length ?locked) ?locked w = Inr (?locked @ gen, w')"
    "length gen = 5 - length ?locked" "validRandom w'" "\<forall>c \<in> set gen. generatedHsl c"
    by blast
  moreover have "nat (int PALETTE_SIZE - int (length ?locked)) = 5 - length ?locked"
    by (simp add: PALETTE_SIZE_def)
  ultimately show ?thesis
    unfolding generateHarmoniousPalette_def Let_def
    by (intro exI [of _ gen] exI [of _ w']) (simp add: slice_def PALETTE_SIZE_def)
qed

lemma sorted_wrt_farApart_nth:
  assumes "sorted_wrt farApart xs" "i < j" "j < length xs"
  shows "hueDistance (xs ! i) (xs ! j) \<ge> 30"
  using assms sorted_wrt_iff_nth_less [of farApart xs]
  by (simp add: farApart_def MIN_HUE_DIFFERENCE_def)

lemma validRandom_zeroWorld: "validRandom zeroWorld"
  by (simp add: validRandom_def zeroWorld_def)

lemma validRandom_spreadWorld: "validRandom spreadWorld"
proof -
  have "(of_nat (k mod 6) :: rat) < 6" for k :: nat
    using of_nat_less_iff [of "k mod 6" 6, where ?'a = rat] by simp
  then show ?thesis by (simp add: validRandom_def spreadWorld_def)
qed

subsection \<open>Palette size and locked colors\<close>

text \<open>
  C2. With a random source whose draws are in [0,1), \<open>generateHarmoniousPalette\<close>
  returns, for every list of existing colors and every options value, a palette
  of exactly 5 colors; so do \<open>generateFreshPalette\<close> and, for every palette,
  \<open>regeneratePalette\<close>.
\<close>

theorem palette_size:
  assumes "validRandom w"
  shows "(\<exists>p w'. generateHarmoniousPalette existing options w = Inr (p, w') \<and> length (colors p) = 5)
       \<and> (\<exists>p w'. generateFreshPalette w = Inr (p, w') \<and> length (colors p) = 5)
       \<and> (\<exists>p w'. regeneratePalette current w = Inr (p, w') \<and> length (colors p) = 5)"
proof -
  have size: "\<exists>p w'. generateHarmoniousPalette ex opts w = Inr (p, w') \<and> length (colors p) = 5"
    for ex opts
  proof -
    from generateHarmoniousPalette_ok [OF assms, of ex opts] obtain gen w' p where
      "generateHarmoniousPalette ex opts w = Inr (p, w')"
      "length (colors p) = 5"
      by (auto split: if_splits)
    then show ?thesis by blast
  qed
  show ?thesis
    using size by (simp add: generateFreshPalette_def regeneratePalette_def)
qed

text \<open>Seven locked colors are cut down to five.\<close>

theorem palette_size_witness:
  "validRandom zeroWorld
   \<and> map_sum id (length \<circ> colors \<circ> fst)
         (generateHarmoniousPalette (replicate 7 colorB) None zeroWorld) = Inr 5
   \<and> map_sum id (length \<circ> colors \<circ> fst) (generateFreshPalette zeroWorld) = Inr 5
   \<and> map_sum id (length \<circ> colors \<circ> fst) (regeneratePalette twoColors zeroWorld) = Inr 5"
  using palette_size [OF validRandom_zeroWorld, of "replicate 7 colorB" None twoColors]
    validRandom_zeroWorld
  by auto

text \<open>
  C1. With a random source whose draws are in [0,1), \<open>regeneratePalette\<close> on a
  palette of 5 colors returns a palette of 5 colors that begins with the locked
  colors of the input, each one unchanged in every field and in their original
  order; so every locked color of the input is in the result.
\<close>

theorem regeneratePalette_keeps_locked:
  assumes "validRandom w" and "length (colors p) = 5"
  shows "\<exists>q w'. regeneratePalette p w = Inr (q, w') \<and> length (colors q) = 5
           \<and> take (length (filter isLocked (colors p))) (colors q) = filter isLocked (colors p)
           \<and> (\<forall>c \<in> set (colors p). isLocked c \<longrightarrow> c \<in> set (colors q))"
proof -
  let ?locked = "filter isLocked (colors p)"
  from generateHarmoniousPalette_ok [OF assms(1), of "colors p" "Some \<lparr>preserveLocked = Some True\<rparr>"]
  obtain gen w' where
    r: "regeneratePalette p w = Inr (\<lparr>colors = take 5 (?locked @ gen), palette_name = None,
                                       createdAt = clock w'\<rparr>, w')"
    and len: "length gen = 5 - length ?locked"
    by (auto simp: regeneratePalette_def)
  have le: "length ?locked \<le> 5" using assms(2) length_filter_le [of isLocked "colors p"] by simp
  then have all: "take 5 (?locked @ gen) = ?locked @ gen" using len by simp
  have "take (length ?locked) (?locked @ gen) = ?locked" by simp
  moreover have "\<forall>c \<in> set (colors p). isLocked c \<longrightarrow> c \<in> set (?locked @ gen)" by simp
  moreover have "length (?locked @ gen) = 5" using le len by simp
  ultimately show ?thesis using r all by simp
qed

lemma regenerated_fiveColors:
  "map_sum id (take 2 \<circ> colors \<circ> fst) (regeneratePalette fiveColors spreadWorld)
     = Inr [colorB, colorD]"
  by code_simp

theorem regeneratePalette_keeps_locked_witness:
  "validRandom spreadWorld \<and> length (colors fiveColors) = 5
   \<and> filter isLocked (colors fiveColors) = [colorB, colorD]
   \<and> map_sum id (take 2 \<circ> colors \<circ> fst) (regeneratePalette fiveColors spreadWorld)
       = Inr [colorB, colorD]"
  using regeneratePalette_keeps_locked [OF validRandom_spreadWorld, of fiveColors]
    validRandom_spreadWorld regenerated_fiveColors
  by (simp add: fiveColors_def colorA_def colorB_def colorC_def colorD_def colorE_def)

subsection \<open>Hue distances in a fresh palette\<close>

text \<open>
  C3, as the claim states it, fails: when every draw of the random source is 0,
  each of the 50 attempts for the second color draws hue 0, which is at distance 0
  from the first color, and the fallback draws hue 0 again; the palette has five
  colors of hue 0.
\<close>

lemma zero_hues:
  "map_sum id (hues \<circ> colors \<circ> fst) (generateFreshPalette zeroWorld) = Inr [0, 0, 0, 0, 0]"
  by code_simp

theorem fresh_palette_spaced_counterexample:
  "validRandom zeroWorld
   \<and> map_sum id (hues \<circ> colors \<circ> fst) (generateFreshPalette zeroWorld) = Inr [0, 0, 0, 0, 0]
   \<and> hueDistance 0 0 < 30"
  using validRandom_zeroWorld zero_hues by (simp add: hueDistance_def)

text \<open>
  C3, amended. With a random source whose draws are in [0,1), and when no color
  of the palette comes from the fallback after 50 rejected attempts,
  \<open>generateFreshPalette\<close> returns a palette of 5 colors in which every two colors
  at different positions have circular hue distance at least 30.
\<close>

theorem fresh_palette_spaced:
  assumes "validRandom w" and "fallbackFree 5 [] w"
  shows "\<exists>p w'. generateFreshPalette w = Inr (p, w') \<and> length (colors p) = 5
           \<and> (\<forall>i j. i < j \<and> j < 5 \<longrightarrow> hueDistance (hues (colors p) ! i) (hues (colors p) ! j) \<ge> 30)"
proof -
  from fillLoop_ok [OF assms(1), of 5 "[]"] assms(2) obtain gen w' where
    f: "fillLoop 5 [] w = Inr (gen, w')" and len: "length gen = 5"
    and sp: "sorted_wrt farApart (hues gen)"
    by (auto simp: hues_def)
  let ?p = "\<lparr>colors = gen, palette_name = None, createdAt = clock w'\<rparr>"
  have "generateFreshPalette w = Inr (?p, w')"
    using f len
    by (simp add: generateFreshPalette_def generateHarmoniousPalette_def PALETTE_SIZE_def slice_def)
  moreover have "length (hues gen) = 5" using len by (simp add: hues_def)
  then have "\<forall>i j. i < j \<and> j < 5 \<longrightarrow> hueDistance (hues gen ! i) (hues gen ! j) \<ge> 30"
    using sorted_wrt_farApart_nth [OF sp] by simp
  ultimately show ?thesis using len by simp
qed

lemma spread_free: "fallbackFree 5 [] spreadWorld"
  by code_simp

lemma spread_hues:
  "map_sum id (hues \<circ> colors \<circ> fst) (generateFreshPalette spreadWorld)
     = Inr [0, 60, 120, 180, 240]"
  by code_simp

theorem fresh_palette_spaced_witness:
  "validRandom spreadWorld \<and> fallbackFree 5 [] spreadWorld
   \<and> map_sum id (hues \<circ> colors \<circ> fst) (generateFreshPalette spreadWorld)
       = Inr [0, 60, 120, 180, 240]"
  using fresh_palette_spaced [OF validRandom_spreadWorld spread_free]
    validRandom_spreadWorld spread_free spread_hues
  by simp

subsection \<open>The range of the stored hue\<close>

lemma Math_round_bounds:
  assumes "of_int a \<le> x" "x \<le> of_int b"
  shows "Math_round x \<in> \<int> \<and> of_int a \<le> Math_round x \<and> Math_round x \<le> of_int b"
proof -
  have "a \<le> \<lfloor>x + 1 / 2\<rfloor>" using assms(1) by (simp add: le_floor_iff)
  moreover have "x + 1 / 2 < of_int (b + 1)" using assms(2) by simp
  then have "\<lfloor>x + 1 / 2\<rfloor> < b + 1" by (simp only: floor_less_iff)
  ultimately show ?thesis by (simp add: Math_round_def)
qed

lemma rgbToHsl_hue:
  "hsl_h (rgbToHsl r g b) \<in> \<int> \<and> 0 \<le> hsl_h (rgbToHsl r g b) \<and> hsl_h (rgbToHsl r g b) \<le> 360"
proof -
  define R where "R = max 0 (min 255 r) / 255"
  define G where "G = max 0 (min 255 g) / 255"
  define B where "B = max 0 (min 255 b) / 255"
  define diff where "diff = max R (max G B) - min R (min G B)"
  define h where "h = (if diff \<noteq> 0
               then (if max R (max G B) = R then ((G - B) / diff + (if G < B then 6 else 0)) / 6
                     else if max R (max G B) = G then ((B - R) / diff + 2) / 6
                     else if max R (max G B) = B then ((R - G) / diff + 4) / 6
                     else 0)
               else 0)"
  have eq: "hsl_h (rgbToHsl r g b) = Math_round (h * 360)"
    unfolding rgbToHsl_def Let_def R_def G_def B_def diff_def h_def
    by (simp only: hsl.select_convs)
  have frac: "- 1 \<le> (x - y) / diff \<and> (x - y) / diff \<le> 1"
    if "diff \<noteq> 0" "\<bar>x - y\<bar> \<le> diff" for x y
  proof -
    have "0 < diff" using that by linarith
    then show ?thesis using that(2) by (simp add: field_simps) linarith
  qed
  have "0 \<le> h \<and> h \<le> 1"
  proof (cases "diff = 0")
    case True
    then show ?thesis by (simp add: h_def)
  next
    case False
    have gb: "\<bar>G - B\<bar> \<le> diff" and br: "\<bar>B - R\<bar> \<le> diff" and rg: "\<bar>R - G\<bar> \<le> diff"
      unfolding diff_def by linarith+
    note f1 = frac [OF False gb] and f2 = frac [OF False br] and f3 = frac [OF False rg]
    have neg: "(G - B) / diff < 0" if "G < B"
      using that False gb by (simp add: divide_less_0_iff)
    have pos: "0 \<le> (G - B) / diff" if "\<not> G < B"
      using that False gb by (simp add: zero_le_divide_iff)
    show ?thesis
      unfolding h_def using False f1 f2 f3 neg pos by auto
  qed
  then have "of_int 0 \<le> h * 360" "h * 360 \<le> of_int 360" by simp_all
  from Math_round_bounds [OF this] show ?thesis unfolding eq by simp
qed

lemma generateHarmoniousPalette_colors:
  assumes "validRandom w"
  shows "\<exists>p w'. generateHarmoniousPalette existing options w = Inr (p, w')
           \<and> (\<forall>c \<in> set (colors p). (c \<in> set existing \<and> isLocked c) \<or> generatedHsl c)"
proof -
  let ?locked = "if (case options of None \<Rightarrow> True
                     | Some opts \<Rightarrow> (case preserveLocked opts of None \<Rightarrow> True | Some p \<Rightarrow> p))
                 then filter isLocked existing else []"
  from generateHarmoniousPalette_ok [OF assms, of existing options] obtain gen w' where
    r: "generateHarmoniousPalette existing options w
          = Inr (\<lparr>colors = take 5 (?locked @ gen), palette_name = None, createdAt = clock w'\<rparr>, w')"
    and g: "\<forall>c \<in> set gen. generatedHsl c"
    by blast
  have "set (take 5 (?locked @ gen)) \<subseteq> set ?locked \<union> set gen"
    using set_take_subset [of 5 "?locked @ gen"] by simp
  moreover have "set ?locked \<subseteq> {c \<in> set existing. isLocked c}" by auto
  ultimately have "\<forall>c \<in> set (take 5 (?locked @ gen)). (c \<in> set existing \<and> isLocked c) \<or> generatedHsl c"
    using g by blast
  with r show ?thesis by simp
qed

text \<open>
  C5, as the claim states it, fails: \<open>isValidHsl\<close> accepts the hue 360 and
  \<open>createColorFromHsl\<close> stores the hue it is given.
\<close>

theorem stored_hue_range_counterexample:
  "map_sum id (color_hsl \<circ> fst) (createColorFromHsl 360 50 50 False zeroWorld)
     = Inr \<lparr>hsl_h = 360, hsl_s = 50, hsl_l = 50\<rparr>"
  by code_simp

text \<open>
  C5, amended. A color made by \<open>createColorFromHsl\<close> stores the hue it was given,
  which is at least 0 and at most 360. A color made by \<open>createColorFromRgb\<close> or by
  \<open>createColorFromHex\<close> has an integer hue that is at least 0 and at most 360. With a
  random source whose draws are in [0,1), every color of a palette returned by
  \<open>generateHarmoniousPalette\<close> is a locked color of the input or has an integer hue
  that is at least 0 and less than 360, and every color of a palette returned by
  \<open>generateFreshPalette\<close> has such a hue.
\<close>

theorem stored_hue_range:
  "(createColorFromHsl h s l lk w = Inr (c1, w1) \<longrightarrow>
      hsl_h (color_hsl c1) = h \<and> 0 \<le> h \<and> h \<le> 360)
   \<and> (createColorFromRgb r g b lk w = Inr (c2, w2) \<longrightarrow>
      hsl_h (color_hsl c2) \<in> \<int> \<and> 0 \<le> hsl_h (color_hsl c2) \<and> hsl_h (color_hsl c2) \<le> 360)
   \<and> (createColorFromHex hx lk w = Inr (c3, w3) \<longrightarrow>
      hsl_h (color_hsl c3) \<in> \<int> \<and> 0 \<le> hsl_h (color_hsl c3) \<and> hsl_h (color_hsl c3) \<le> 360)
   \<and> (validRandom w \<longrightarrow>
      (\<exists>p w'. generateHarmoniousPalette existing options w = Inr (p, w')
         \<and> (\<forall>c \<in> set (colors p).
               (c \<in> set existing \<and> isLocked c)
               \<or> (hsl_h (color_hsl c) \<in> \<int> \<and> 0 \<le> hsl_h (color_hsl c) \<and> hsl_h (color_hsl c) < 360)))
      \<and> (\<exists>p w'. generateFreshPalette w = Inr (p, w')
         \<and> (\<forall>c \<in> set (colors p).
               hsl_h (color_hsl c) \<in> \<int> \<and> 0 \<le> hsl_h (color_hsl c) \<and> hsl_h (color_hsl c) < 360)))"
proof -
  have p1: "createColorFromHsl h s l lk w = Inr (c1, w1) \<longrightarrow>
      hsl_h (color_hsl c1) = h \<and> 0 \<le> h \<and> h \<le> 360"
    by (auto simp: createColorFromHsl_def isValidHsl_def randomUUID_def Let_def split: if_splits)
  have p2: "createColorFromRgb r g b lk w = Inr (c2, w2) \<longrightarrow>
      hsl_h (color_hsl c2) \<in> \<int> \<and> 0 \<le> hsl_h (color_hsl c2) \<and> hsl_h (color_hsl c2) \<le> 360"
  proof
    assume "createColorFromRgb r g b lk w = Inr (c2, w2)"
    then have "color_hsl c2 = rgbToHsl r g b"
      by (auto simp: createColorFromRgb_def randomUUID_def Let_def split: if_splits)
    then show "hsl_h (color_hsl c2) \<in> \<int> \<and> 0 \<le> hsl_h (color_hsl c2) \<and> hsl_h (color_hsl c2) \<le> 360"
      using rgbToHsl_hue [of r g b] by simp
  qed
  have p3: "createColorFromHex hx lk w = Inr (c3, w3) \<longrightarrow>
      hsl_h (color_hsl c3) \<in> \<int> \<and> 0 \<le> hsl_h (color_hsl c3) \<and> hsl_h (color_hsl c3) \<le> 360"
  proof
    assume "createColorFromHex hx lk w = Inr (c3, w3)"
    then have "color_hsl c3
                 = rgbToHsl (rgb_r (color_rgb c3)) (rgb_g (color_rgb c3)) (rgb_b (color_rgb c3))"
      by (auto simp: createColorFromHex_def randomUUID_def Let_def split: if_splits sum.splits)
    then show "hsl_h (color_hsl c3) \<in> \<int> \<and> 0 \<le> hsl_h (color_hsl c3) \<and> hsl_h (color_hsl c3) \<le> 360"
      using rgbToHsl_hue [of "rgb_r (color_rgb c3)" "rgb_g (color_rgb c3)" "rgb_b (color_rgb c3)"]
      by simp
  qed
  have p4: "validRandom w \<longrightarrow>
      (\<exists>p w'. generateHarmoniousPalette existing options w = Inr (p, w')
         \<and> (\<forall>c \<in> set (colors p).
               (c \<in> set existing \<and> isLocked c)
               \<or> (hsl_h (color_hsl c) \<in> \<int> \<and> 0 \<le> hsl_h (color_hsl c) \<and> hsl_h (color_hsl c) < 360)))
      \<and> (\<exists>p w'. generateFreshPalette w = Inr (p, w')
         \<and> (\<forall>c \<in> set (colors p).
               hsl_h (color_hsl c) \<in> \<int> \<and> 0 \<le> hsl_h (color_hsl c) \<and> hsl_h (color_hsl c) < 360))"
  proof
    assume v: "validRandom w"
    have gen: "hsl_h (color_hsl c) \<in> \<int> \<and> 0 \<le> hsl_h (color_hsl c) \<and> hsl_h (color_hsl c) < 360"
      if "generatedHsl c" for c
      using that by (simp add: generatedHsl_def)
    from generateHarmoniousPalette_colors [OF v, of existing options] obtain p w' where
      r: "generateHarmoniousPalette existing options w = Inr (p, w')"
      and g: "\<forall>c \<in> set (colors p). (c \<in> set existing \<and> isLocked c) \<or> generatedHsl c"
      by blast
    have "\<forall>c \<in> set (colors p). (c \<in> set existing \<and> isLocked c)
             \<or> (hsl_h (color_hsl c) \<in> \<int> \<and> 0 \<le> hsl_h (color_hsl c) \<and> hsl_h (color_hsl c) < 360)"
      using g gen by blast
    with r have a: "\<exists>p w'. generateHarmoniousPalette existing options w = Inr (p, w')
           \<and> (\<forall>c \<in> set (colors p).
                 (c \<in> set existing \<and> isLocked c)
                 \<or> (hsl_h (color_hsl c) \<in> \<int> \<and> 0 \<le> hsl_h (color_hsl c) \<and> hsl_h (color_hsl c) < 360))"
      by blast
    from generateHarmoniousPalette_colors [OF v, of "[]" "Some \<lparr>preserveLocked = Some False\<rparr>"]
    obtain q w'' where
      r2: "generateFreshPalette w = Inr (q, w'')"
      and g2: "\<forall>c \<in> set (colors q). generatedHsl c"
      by (auto simp: generateFreshPalette_def)
    have "\<forall>c \<in> set (colors q).
             hsl_h (color_hsl c) \<in> \<int> \<and> 0 \<le> hsl_h (color_hsl c) \<and> hsl_h (color_hsl c) < 360"
      using g2 gen by blast
    with r2 have b: "\<exists>p w'. generateFreshPalette w = Inr (p, w')
           \<and> (\<forall>c \<in> set (colors p).
                 hsl_h (color_hsl c) \<in> \<int> \<and> 0 \<le> hsl_h (color_hsl c) \<and> hsl_h (color_hsl c) < 360)"
      by blast
    from a b show "(\<exists>p w'. generateHarmoniousPalette existing options w = Inr (p, w')
         \<and> (\<forall>c \<in> set (colors p).
               (c \<in> set existing \<and> isLocked c)
               \<or> (hsl_h (color_hsl c) \<in> \<int> \<and> 0 \<le> hsl_h (color_hsl c) \<and> hsl_h (color_hsl c) < 360)))
      \<and> (\<exists>p w'. generateFreshPalette w = Inr (p, w')
         \<and> (\<forall>c \<in> set (colors p).
               hsl_h (color_hsl c) \<in> \<int> \<and> 0 \<le> hsl_h (color_hsl c) \<and> hsl_h (color_hsl c) < 360))"
      by (rule conjI)
  qed
  show ?thesis by (rule conjI [OF p1 conjI [OF p2 conjI [OF p3 p4]]])
qed

lemma made_from_hsl:
  "map_sum id (color_hsl \<circ> fst) (createColorFromHsl 180 50 50 False zeroWorld)
     = Inr \<lparr>hsl_h = 180, hsl_s = 50, hsl_l = 50\<rparr>"
  by code_simp

lemma made_from_rgb:
  "map_sum id (color_hsl \<circ> fst) (createColorFromRgb 255 0 1 False zeroWorld)
     = Inr \<lparr>hsl_h = 360, hsl_s = 100, hsl_l = 50\<rparr>"
  by code_simp

lemma made_from_hex:
  "map_sum id (color_hsl \<circ> fst) (createColorFromHex ''#29a3a3'' False zeroWorld)
     = Inr \<lparr>hsl_h = 180, hsl_s = 60, hsl_l = 40\<rparr>"
  by code_simp

lemma harmonious_hues:
  "map_sum id (hues \<circ> colors \<circ> fst)
     (generateHarmoniousPalette (colors fiveColors) None spreadWorld)
     = Inr [9, 180, 60, 120, 240]"
  by code_simp

theorem stored_hue_range_witness:
  "map_sum id (color_hsl \<circ> fst) (createColorFromHsl 180 50 50 False zeroWorld)
     = Inr \<lparr>hsl_h = 180, hsl_s = 50, hsl_l = 50\<rparr>
   \<and> map_sum id (color_hsl \<circ> fst) (createColorFromRgb 255 0 1 False zeroWorld)
     = Inr \<lparr>hsl_h = 360, hsl_s = 100, hsl_l = 50\<rparr>
   \<and> map_sum id (color_hsl \<circ> fst) (createColorFromHex ''#29a3a3'' False zeroWorld)
     = Inr \<lparr>hsl_h = 180, hsl_s = 60, hsl_l = 40\<rparr>
   \<and> validRandom spreadWorld
   \<and> map_sum id (hues \<circ> colors \<circ> fst)
         (generateHarmoniousPalette (colors fiveColors) None spreadWorld)
     = Inr [9, 180, 60, 120, 240]
   \<and> map_sum id (hues \<circ> colors \<circ> fst) (generateFreshPalette spreadWorld)
     = Inr [0, 60, 120, 180, 240]"
proof -
  let ?made = "createColorFromHsl 180 50 50 False zeroWorld"
  have "?made = Inr (fst (projr ?made), snd (projr ?made))"
    by (simp add: createColorFromHsl_def isValidHsl_def randomUUID_def Let_def)
  with stored_hue_range [of 180 50 50 False zeroWorld "fst (projr ?made)" "snd (projr ?made)"]
  have "(0::rat) \<le> 180 \<and> (180::rat) \<le> 360" by blast
  then show ?thesis
    using made_from_hsl made_from_rgb made_from_hex validRandom_spreadWorld harmonious_hues
      spread_hues
    by simp
qed

section \<open>The HEX conversions\<close>

lemma upperHex_table:
  "list_all (\<lambda>d. digitValue (upperHex d) = Some d
                \<and> \<not> isWhiteSpace (upperHex d)
                \<and> upperHex d \<noteq> CHR ''+'' \<and> upperHex d \<noteq> CHR ''-''
                \<and> upperHex d \<noteq> CHR ''x'' \<and> upperHex d \<noteq> CHR ''X''
                \<and> toUpperCase_char (upperHex d) = upperHex d) [0..<16]"
  by code_simp

lemma upperHex_facts:
  assumes "d < 16"
  shows "digitValue (upperHex d) = Some d"
    and "\<not> isWhiteSpace (upperHex d)"
    and "upperHex d \<noteq> CHR ''+''" and "upperHex d \<noteq> CHR ''-''"
    and "upperHex d \<noteq> CHR ''x''" and "upperHex d \<noteq> CHR ''X''"
    and "toUpperCase_char (upperHex d) = upperHex d"
proof -
  have "d \<in> set [0..<16]" using assms by simp
  with upperHex_table have
    "digitValue (upperHex d) = Some d
       \<and> \<not> isWhiteSpace (upperHex d)
       \<and> upperHex d \<noteq> CHR ''+'' \<and> upperHex d \<noteq> CHR ''-''
       \<and> upperHex d \<noteq> CHR ''x'' \<and> upperHex d \<noteq> CHR ''X''
       \<and> toUpperCase_char (upperHex d) = upperHex d"
    unfolding list_all_iff by blast
  then show "digitValue (upperHex d) = Some d"
    and "\<not> isWhiteSpace (upperHex d)"
    and "upperHex d \<noteq> CHR ''+''" and "upperHex d \<noteq> CHR ''-''"
    and "upperHex d \<noteq> CHR ''x''" and "upperHex d \<noteq> CHR ''X''"
    and "toUpperCase_char (upperHex d) = upperHex d"
    by blast+
qed

lemma parseInt16_pair:
  assumes "a < 16" "b < 16"
  shows "parseInt16 [upperHex a, upperHex b] = Some (int (16 * a + b))"
  using upperHex_facts [OF assms(1)] upperHex_facts [OF assms(2)]
  by (simp add: parseInt16_def isHexDigit_def Let_def)

lemma channel_le: "channel n \<le> 255"
proof -
  have "of_int 0 \<le> max 0 (min 255 n)" "max 0 (min 255 n) \<le> of_int 255" by simp_all
  from Math_round_bounds [OF this] obtain k where
    "Math_round (max 0 (min 255 n)) = of_int k" "0 \<le> k" "k \<le> 255"
    by (auto elim!: Ints_cases)
  then show ?thesis by (simp add: channel_def)
qed

lemma channel_of_nat:
  assumes "k \<le> 255"
  shows "channel (of_int (int k)) = k"
proof -
  have "max 0 (min 255 (of_int (int k))) = (of_int (int k) :: rat)" using assms by simp
  moreover have "\<lfloor>(of_int (int k) :: rat) + 1 / 2\<rfloor> = int k" by (simp add: floor_unique)
  ultimately show ?thesis by (simp add: channel_def Math_round_def)
qed

lemma toString16_small: "n < 16 \<Longrightarrow> toString16 n = [hexDigit n]"
  by (simp add: toString16.simps)

lemma toString16_two:
  assumes "16 \<le> n" "n \<le> 255"
  shows "toString16 n = [hexDigit (n div 16), hexDigit (n mod 16)]"
proof -
  have "n div 16 < 16" using assms(2) by simp
  then show ?thesis using assms(1) toString16.simps [of n] by (simp add: toString16_small)
qed

lemma toHex_digits:
  "toHex n = [hexDigit (channel n div 16), hexDigit (channel n mod 16)]"
proof (cases "channel n < 16")
  case True
  then show ?thesis
    by (simp add: toHex_def Let_def channel_def [symmetric] toString16_small hexDigit_def)
next
  case False
  then show ?thesis
    using channel_le [of n]
    by (simp add: toHex_def Let_def channel_def [symmetric] toString16_two)
qed

lemma rgbToHex_digits:
  "rgbToHex r g b =
     [CHR ''#'', upperHex (channel r div 16), upperHex (channel r mod 16),
                 upperHex (channel g div 16), upperHex (channel g mod 16),
                 upperHex (channel b div 16), upperHex (channel b mod 16)]"
proof -
  have "toUpperCase_char CHR ''#'' = CHR ''#''" by (simp add: toUpperCase_char_def)
  then show ?thesis by (simp add: rgbToHex_def toHex_digits toUpperCase_def upperHex_def)
qed

lemma hexToRgb_rgbToHex:
  "hexToRgb (rgbToHex r g b)
     = Inr \<lparr>rgb_r = of_int (int (channel r)), rgb_g = of_int (int (channel g)),
            rgb_b = of_int (int (channel b))\<rparr>"
proof -
  have d: "channel n div 16 < 16" "channel n mod 16 < 16" for n
    using channel_le [of n] by simp_all
  have v: "16 * (channel n div 16) + channel n mod 16 = channel n" for n by simp
  show ?thesis
    unfolding rgbToHex_digits hexToRgb_def
    by (simp add: toUpperCase_def upperHex_facts d substring_def parseInt16_pair v Let_def
             del: of_nat_add of_nat_mult)
qed

text \<open>
  C6. For \<open>r\<close>, \<open>g\<close>, \<open>b\<close> in [0,255], \<open>hexToRgb\<close> accepts the string
  \<open>rgbToHex(r, g, b)\<close>, and \<open>rgbToHex\<close> of the channels it returns is that string
  again.
\<close>

theorem hex_round_trip:
  assumes "0 \<le> r \<and> r \<le> 255" and "0 \<le> g \<and> g \<le> 255" and "0 \<le> b \<and> b \<le> 255"
  shows "\<exists>c. hexToRgb (rgbToHex r g b) = Inr c
           \<and> rgbToHex (rgb_r c) (rgb_g c) (rgb_b c) = rgbToHex r g b"
proof -
  let ?c = "\<lparr>rgb_r = of_int (int (channel r)), rgb_g = of_int (int (channel g)),
             rgb_b = of_int (int (channel b))\<rparr>"
  have same: "channel (of_int (int (channel n))) = channel n" for n
    using channel_le [of n] by (rule channel_of_nat)
  have parsed: "hexToRgb (rgbToHex r g b) = Inr ?c" by (rule hexToRgb_rgbToHex)
  have "rgbToHex (of_int (int (channel r))) (of_int (int (channel g))) (of_int (int (channel b)))
          = rgbToHex r g b"
    unfolding rgbToHex_digits same ..
  then have "rgbToHex (rgb_r ?c) (rgb_g ?c) (rgb_b ?c) = rgbToHex r g b"
    by (simp only: rgb.select_convs)
  with parsed show ?thesis by (intro exI [of _ ?c] conjI)
qed

lemma half_rounds_up:
  "hexToRgb (rgbToHex 255 (173 / 2) 51) = Inr \<lparr>rgb_r = 255, rgb_g = 87, rgb_b = 51\<rparr>"
  by code_simp

lemma half_rounds_same: "rgbToHex 255 87 51 = rgbToHex 255 (173 / 2) 51"
  by code_simp

theorem hex_round_trip_witness:
  "(0::rat) \<le> 255 \<and> (255::rat) \<le> 255 \<and> (0::rat) \<le> 173 / 2 \<and> (173 / 2 ::rat) \<le> 255
   \<and> (0::rat) \<le> 51 \<and> (51::rat) \<le> 255
   \<and> hexToRgb (rgbToHex 255 (173 / 2) 51) = Inr \<lparr>rgb_r = 255, rgb_g = 87, rgb_b = 51\<rparr>
   \<and> rgbToHex 255 87 51 = rgbToHex 255 (173 / 2) 51"
  using hex_round_trip [of 255 "173 / 2" 51]
  by (simp add: half_rounds_up half_rounds_same)

text \<open>
  C4. \<open>hexToRgb\<close> raises \<open>InvalidFormat\<close> exactly when the string without a
  leading \<open>#\<close> is not made of 6 hexadecimal digits. The program does not: \<open>parseInt\<close>
  reads the hexadecimal prefix of a group and drops the rest, and it reads a sign,
  so \<open>12345G\<close> and \<open>-1-2-3\<close> are accepted, the second with negative channels;
  \<open>isValidHex\<close> rejects both.
\<close>

theorem hexToRgb_accepts_non_hex:
  "hexToRgb ''12345G'' = Inr \<lparr>rgb_r = 18, rgb_g = 52, rgb_b = 5\<rparr>
   \<and> \<not> isValidHex ''12345G''
   \<and> hexToRgb ''-1-2-3'' = Inr \<lparr>rgb_r = - 1, rgb_g = - 2, rgb_b = - 3\<rparr>
   \<and> \<not> isValidHex ''-1-2-3''"
  by code_simp

end
